theory Spec2Isabelle
  imports Main "HOL-Library.Word" "HOL-Library.Signed_Division"
begin

section \<open>Data model of the webhook pipeline (messenger.go)\<close>

text \<open>
  Go strings and byte slices are byte sequences: both are \<open>string\<close> here (a list of
  8-bit characters). \<open>int64\<close> is a 64-bit word read in two's complement.
\<close>

type_synonym int64 = "64 word"

text \<open>
  \<open>x / y\<close> on \<open>int64\<close>: the quotient truncated towards zero, wrapped to 64 bits
  (Go defines \<open>MinInt64 / -1 = MinInt64\<close>). The only divisor in this file is a
  non-zero constant, so the division-by-zero panic is never reached.
\<close>

definition int64_quo :: "int64 \<Rightarrow> int64 \<Rightarrow> int64" where
  "int64_quo a b = word_of_int (sint a sdiv sint b)"

text \<open>\<open>time.Microsecond\<close> is the \<open>Duration\<close> constant \<open>1000 * Nanosecond\<close>, that is 1000.\<close>

definition time_Microsecond :: int64 where
  "time_Microsecond = 1000"

text \<open>
  A \<open>time.Time\<close>: the zero value \<open>time.Time{}\<close> of a field nobody has set, or the
  result of \<open>time.Unix(sec, nsec)\<close>; the code always passes \<open>nsec = 0\<close>, for which
  \<open>time.Unix\<close> does no normalisation.
\<close>

datatype Time = ZeroTime | Unix int64 int64

text \<open>\<open>Sender\<close> and \<open>Recipient\<close> are structs holding one \<open>ID int64\<close>.\<close>

datatype Sender = MkSender (sender_ID: int64)

datatype Recipient = MkRecipient (recipient_ID: int64)

text \<open>
  Modelled from the spec: the seven payload structs (\<open>Message\<close>, \<open>Delivery\<close>,
  \<open>Read\<close>, \<open>PostBack\<close>, \<open>OptIn\<close>, \<open>ReferralMessage\<close>, \<open>AccountLinking\<close>) are
  declared outside messenger.go. The spec's NormalizedMessage is "the populated union
  payload, enriched with sender, recipient, and a derived wall-clock time", so a
  payload carries those three fields (the ones \<open>dispatch\<close> assigns) and its remaining
  fields, kept as one uninterpreted value \<open>pl_Rest\<close>.
\<close>

record Payload =
  pl_Sender :: Sender
  pl_Recipient :: Recipient
  pl_Time :: Time
  pl_Rest :: string

text \<open>
  \<open>MessageInfo\<close>: the common fields and the seven optional payload pointers
  (\<open>nil\<close> is \<open>None\<close>). The field \<open>Message\<close> of the source is \<open>info_Message\<close> etc.
\<close>

record MessageInfo =
  info_Sender :: Sender
  info_Recipient :: Recipient
  info_Timestamp :: int64
  info_Message :: "Payload option"
  info_Delivery :: "Payload option"
  info_Read :: "Payload option"
  info_PostBack :: "Payload option"
  info_OptIn :: "Payload option"
  info_ReferralMessage :: "Payload option"
  info_AccountLinking :: "Payload option"

record Entry =
  Messaging :: "MessageInfo list"

text \<open>\<open>Receive\<close>: the field \<open>Entry []Entry\<close> of the source is \<open>Entries\<close> here.\<close>

record Receive =
  Object :: string
  Entries :: "Entry list"

datatype Action =
    UnknownAction
  | TextAction
  | DeliveryAction
  | ReadAction
  | PostBackAction
  | OptInAction
  | ReferralAction
  | AccountLinkingAction

text \<open>\<open>*http.Client\<close>: the default client or a caller-supplied one (an opaque handle).\<close>

datatype Client = DefaultClient | CustomClient nat

record Options =
  opt_Verify :: bool
  opt_AppSecret :: string
  opt_VerifyToken :: string
  opt_Token :: string
  opt_Client :: "Client option"

record Messenger =
  client :: Client
  mux :: "nat option"
  token :: string
  verify :: bool
  appSecret :: string
  verifyToken :: string

text \<open>\<open>New\<close>: a nil client becomes \<open>http.DefaultClient\<close>; \<open>mux\<close> stays nil.\<close>

definition New :: "Options \<Rightarrow> Messenger" where
  "New mo =
     (let c = (case opt_Client mo of None \<Rightarrow> DefaultClient | Some c \<Rightarrow> c)
      in \<lparr>client = c, mux = None, token = opt_Token mo, verify = opt_Verify mo,
          appSecret = opt_AppSecret mo, verifyToken = opt_VerifyToken mo\<rparr>)"

section \<open>classify\<close>

fun classify :: "Messenger \<Rightarrow> MessageInfo \<Rightarrow> Entry \<Rightarrow> Action" where
  "classify m info e =
     (if info_Message info \<noteq> None then TextAction
      else if info_Delivery info \<noteq> None then DeliveryAction
      else if info_Read info \<noteq> None then ReadAction
      else if info_PostBack info \<noteq> None then PostBackAction
      else if info_OptIn info \<noteq> None then OptInAction
      else if info_ReferralMessage info \<noteq> None then ReferralAction
      else if info_AccountLinking info \<noteq> None then AccountLinkingAction
      else UnknownAction)"

text \<open>
  The spec's reading of the classifier: the union fields in the precedence order
  Message, Delivery, Read, PostBack, OptIn, ReferralMessage, AccountLinking, each with
  its category; \<open>populated\<close> keeps the categories whose field is set, in that order.
\<close>

definition union_fields :: "MessageInfo \<Rightarrow> (Action \<times> bool) list" where
  "union_fields info =
     [(TextAction, info_Message info \<noteq> None),
      (DeliveryAction, info_Delivery info \<noteq> None),
      (ReadAction, info_Read info \<noteq> None),
      (PostBackAction, info_PostBack info \<noteq> None),
      (OptInAction, info_OptIn info \<noteq> None),
      (ReferralAction, info_ReferralMessage info \<noteq> None),
      (AccountLinkingAction, info_AccountLinking info \<noteq> None)]"

definition populated :: "MessageInfo \<Rightarrow> Action list" where
  "populated info = map fst (filter snd (union_fields info))"

definition first_populated :: "MessageInfo \<Rightarrow> Action" where
  "first_populated info = (case populated info of [] \<Rightarrow> UnknownAction | a # _ \<Rightarrow> a)"


section \<open>Requests, responses and observable effects\<close>

text \<open>\<open>context.Context\<close> of the request: an opaque handle.\<close>

type_synonym Context = nat

text \<open>
  \<open>*http.Request\<close>: the method, the parsed form values (for a GET, the URL query in
  order), the headers under their canonical names, the context, and the body as the
  bytes a reader still gets from it. \<open>ioutil.ReadAll\<close> returns those bytes and leaves
  nothing to read; the code discards its error, so a failing reader is the reader of
  the bytes delivered before the failure.
\<close>

record Request =
  Method :: string
  Form :: "(string \<times> string) list"
  Header :: "(string \<times> string) list"
  Body :: string
  req_Context :: Context

definition ReadAll :: "Request \<Rightarrow> string \<times> Request" where
  "ReadAll r = (Body r, r\<lparr>Body := []\<rparr>)"

text \<open>\<open>r.FormValue(key)\<close> and \<open>r.Header.Get(key)\<close>: the first value, or the empty string.\<close>

definition FormValue :: "Request \<Rightarrow> string \<Rightarrow> string" where
  "FormValue r key = (case map_of (Form r) key of None \<Rightarrow> [] | Some v \<Rightarrow> v)"

definition Header_Get :: "(string \<times> string) list \<Rightarrow> string \<Rightarrow> string" where
  "Header_Get h key = (case map_of h key of None \<Rightarrow> [] | Some v \<Rightarrow> v)"

text \<open>
  What the \<open>http.ResponseWriter\<close> has received when the handler returns: the status
  and the body (response headers are not modelled). \<open>fmt.Fprintln\<close> writes its
  operand and a newline, with the implicit status 200; \<open>http.Error\<close> writes the
  status and the message followed by a newline.
\<close>

record HTTPResponse =
  Status :: nat
  RespBody :: string

definition StatusOK :: nat where "StatusOK = 200"
definition StatusForbidden :: nat where "StatusForbidden = 403"
definition StatusUnprocessableEntity :: nat where "StatusUnprocessableEntity = 422"

definition Fprintln :: "string \<Rightarrow> HTTPResponse" where
  "Fprintln s = \<lparr>Status = StatusOK, RespBody = s @ [CHR 0x0A]\<rparr>"

definition http_Error :: "string \<Rightarrow> nat \<Rightarrow> HTTPResponse" where
  "http_Error msg code = \<lparr>Status = code, RespBody = msg @ [CHR 0x0A]\<rparr>"

text \<open>
  \<open>Response\<close>: the reply handle built per event (fields \<open>to\<close>, \<open>token\<close>, \<open>client\<close>).
\<close>

record Response =
  resp_to :: Recipient
  resp_token :: string
  resp_client :: Client

text \<open>
  The registry \<open>Handlers\<close> is a package variable declared outside messenger.go: it is
  a parameter of \<open>dispatch\<close>. A handler is a Go function; here it is an opaque
  identifier, and calling it is the effect \<open>Call\<close> with the arguments it receives.
  Handlers are taken to return.
\<close>

record HandlerSet =
  messageHandlers :: "nat list"
  deliveryHandlers :: "nat list"
  readHandlers :: "nat list"
  postBackHandlers :: "nat list"
  optInHandlers :: "nat list"
  referralHandlers :: "nat list"
  accountLinkingHandlers :: "nat list"

text \<open>
  Effects in the order they happen: a line printed on standard output (without its
  final newline), the line \<open>Unknown action: <info>\<close> (the formatted struct is kept as
  the struct), and a handler call \<open>f(ctx, message, resp)\<close> from the loop of the given category.
\<close>

datatype Effect =
    Println string
  | PrintlnUnknown MessageInfo
  | Call Action nat Context Payload Response

fun is_Call :: "Effect \<Rightarrow> bool" where
  "is_Call (Call a f ctx p resp) = True"
| "is_Call _ = False"

definition calls :: "Effect list \<Rightarrow> Effect list" where
  "calls es = filter is_Call es"

section \<open>verifyHandler\<close>

definition verifyHandler :: "Messenger \<Rightarrow> Request \<Rightarrow> HTTPResponse" where
  "verifyHandler m r =
     (if FormValue r ''hub.verify_token'' = verifyToken m
      then Fprintln (FormValue r ''hub.challenge'')
      else http_Error ''Incorrect verify token'' StatusForbidden)"

section \<open>dispatch\<close>

text \<open>
  The four lines repeated in five of the handler loops: copy the payload, set
  \<open>Sender\<close>, \<open>Recipient\<close> and \<open>Time = time.Unix(info.Timestamp/int64(time.Microsecond), 0)\<close>.
\<close>

definition enrich :: "MessageInfo \<Rightarrow> Payload \<Rightarrow> Payload" where
  "enrich info p =
     p\<lparr>pl_Sender := info_Sender info,
       pl_Recipient := info_Recipient info,
       pl_Time := Unix (int64_quo (info_Timestamp info) time_Microsecond) 0\<rparr>"

text \<open>
  The body of the inner loop for one event. A payload pointer is dereferenced only in
  the branch \<open>classify\<close> selected for it, where it is not nil (lemma
  \<open>classify_populated\<close> below).
\<close>

definition dispatch_info ::
  "Messenger \<Rightarrow> HandlerSet \<Rightarrow> Context \<Rightarrow> MessageInfo \<Rightarrow> Entry \<Rightarrow> Effect list" where
  "dispatch_info m H ctx info entry =
     (let a = classify m info entry in
      if a = UnknownAction then [PrintlnUnknown info]
      else
        let resp = \<lparr>resp_to = MkRecipient (sender_ID (info_Sender info)),
                    resp_token = token m, resp_client = client m\<rparr>
        in (case a of
              TextAction \<Rightarrow>
                map (\<lambda>f. Call TextAction f ctx (enrich info (the (info_Message info))) resp)
                  (messageHandlers H)
            | DeliveryAction \<Rightarrow>
                map (\<lambda>f. Call DeliveryAction f ctx (the (info_Delivery info)) resp)
                  (deliveryHandlers H)
            | ReadAction \<Rightarrow>
                map (\<lambda>f. Call ReadAction f ctx (the (info_Read info)) resp)
                  (readHandlers H)
            | PostBackAction \<Rightarrow>
                map (\<lambda>f. Call PostBackAction f ctx (enrich info (the (info_PostBack info))) resp)
                  (postBackHandlers H)
            | OptInAction \<Rightarrow>
                map (\<lambda>f. Call OptInAction f ctx (enrich info (the (info_OptIn info))) resp)
                  (optInHandlers H)
            | ReferralAction \<Rightarrow>
                map (\<lambda>f. Call ReferralAction f ctx
                            (enrich info (the (info_ReferralMessage info))) resp)
                  (referralHandlers H)
            | AccountLinkingAction \<Rightarrow>
                map (\<lambda>f. Call AccountLinkingAction f ctx
                            (enrich info (the (info_AccountLinking info))) resp)
                  (accountLinkingHandlers H)
            | UnknownAction \<Rightarrow> []))"

fun dispatch_messaging ::
  "Messenger \<Rightarrow> HandlerSet \<Rightarrow> Context \<Rightarrow> Entry \<Rightarrow> MessageInfo list \<Rightarrow> Effect list" where
  "dispatch_messaging m H ctx entry [] = []"
| "dispatch_messaging m H ctx entry (info # infos) =
     dispatch_info m H ctx info entry @ dispatch_messaging m H ctx entry infos"

fun dispatch_entries ::
  "Messenger \<Rightarrow> HandlerSet \<Rightarrow> Context \<Rightarrow> Entry list \<Rightarrow> Effect list" where
  "dispatch_entries m H ctx [] = []"
| "dispatch_entries m H ctx (entry # entries) =
     dispatch_messaging m H ctx entry (Messaging entry) @ dispatch_entries m H ctx entries"

definition dispatch :: "Messenger \<Rightarrow> HandlerSet \<Rightarrow> Context \<Rightarrow> Receive \<Rightarrow> Effect list" where
  "dispatch m H ctx r = dispatch_entries m H ctx (Entries r)"

section \<open>checkIntegrity\<close>

text \<open>
  \<open>strings.SplitN(s, "=", 2)\<close>: one element when \<open>s\<close> has no \<open>=\<close>, otherwise
  the text before the first \<open>=\<close> and everything after it.
\<close>

definition SplitN2 :: "string \<Rightarrow> string list" where
  "SplitN2 s =
     (if CHR ''='' \<in> set s
      then [takeWhile (\<lambda>c. c \<noteq> CHR ''='') s, tl (dropWhile (\<lambda>c. c \<noteq> CHR ''='') s)]
      else [s])"

text \<open>\<open>strings.Join(sig, "=")\<close>.\<close>

fun Join :: "string list \<Rightarrow> string" where
  "Join [] = []"
| "Join [a] = a"
| "Join (a # b # rest) = a @ ''='' @ Join (b # rest)"

text \<open>
  \<open>strings.ToLower\<close> on the ASCII letters; other bytes are kept. Go also maps
  letters beyond ASCII, none of them to a character of \<open>sha1\<close> or to a hexadecimal
  digit, so the verdict of \<open>checkIntegrity\<close> is the same.
\<close>

definition lower_char :: "char \<Rightarrow> char" where
  "lower_char c =
     (case map_of (zip ''ABCDEFGHIJKLMNOPQRSTUVWXYZ'' ''abcdefghijklmnopqrstuvwxyz'') c of
        None \<Rightarrow> c
      | Some d \<Rightarrow> d)"

definition ToLower :: "string \<Rightarrow> string" where
  "ToLower s = map lower_char s"

text \<open>\<open>fmt.Sprintf("%x", bytes)\<close>: two lowercase hexadecimal digits per byte.\<close>

definition hex_digit :: "nat \<Rightarrow> char" where
  "hex_digit n = ''0123456789abcdef'' ! (n mod 16)"

definition hex :: "string \<Rightarrow> string" where
  "hex bs = concat (map (\<lambda>b. [hex_digit (of_char b div 16), hex_digit (of_char b)]) bs)"

datatype IntegrityError =
    MissingAppSecret
  | MissingHeader
  | MalformedHeader string
  | InvalidSignature string
  | UnknownEncoding string

definition sigHeader :: string where
  "sigHeader = ''X-Hub-Signature''"

text \<open>The message of each error (\<open>err.Error()\<close>), as \<open>fmt.Errorf\<close> formats it.\<close>

fun Error :: "IntegrityError \<Rightarrow> string" where
  "Error MissingAppSecret = ''missing app secret''"
| "Error MissingHeader = ''missing '' @ sigHeader @ '' header''"
| "Error (MalformedHeader v) = ''malformed '' @ sigHeader @ '' header: '' @ v"
| "Error (InvalidSignature h) = ''invalid signature: '' @ h"
| "Error (UnknownEncoding e) =
     ''unknown '' @ sigHeader @ '' header encoding, expected sha1: '' @ e"

text \<open>
  \<open>hmac.New(sha1.New, key)\<close>, \<open>Write(body)\<close>, \<open>Sum(nil)\<close> are library code: the
  keyed hash is the parameter \<open>hmac_sha1 key body\<close>.
\<close>

definition checkSHA1 ::
  "(string \<Rightarrow> string \<Rightarrow> string) \<Rightarrow> Messenger \<Rightarrow> string \<Rightarrow> string \<Rightarrow> IntegrityError option" where
  "checkSHA1 hmac_sha1 m body hash =
     (if hex (hmac_sha1 (appSecret m) body) \<noteq> hash then Some (InvalidSignature hash)
      else None)"

definition checkIntegrity ::
  "(string \<Rightarrow> string \<Rightarrow> string) \<Rightarrow> Messenger \<Rightarrow> Request \<Rightarrow> IntegrityError option \<times> Request" where
  "checkIntegrity hmac_sha1 m r =
     (if appSecret m = [] then (Some MissingAppSecret, r)
      else
        let sig = SplitN2 (Header_Get (Header r) sigHeader) in
        if length sig = 1 then
          (if sig ! 0 = [] then (Some MissingHeader, r)
           else (Some (MalformedHeader (Join sig)), r))
        else
          let (body, r1) = ReadAll r;
              r2 = r1\<lparr>Body := body\<rparr>;
              sigEnc = ToLower (sig ! 0);
              sigHash = ToLower (sig ! 1)
          in if sigEnc = ''sha1'' then (checkSHA1 hmac_sha1 m body sigHash, r2)
             else (Some (UnknownEncoding (sig ! 0)), r2))"

section \<open>Handle\<close>

text \<open>
  The result of one call of \<open>Handle\<close>: what was written to the response writer, the
  effects in order, and the request as it is left (its body may have been read).
  \<open>json.Unmarshal\<close> into a \<open>Receive\<close> is library code driven by struct tags declared
  outside messenger.go: it is the parameter \<open>Unmarshal\<close>, giving the error text or the
  decoded value. The decoder \<open>json_Unmarshal\<close> of the next section is what is passed
  for it wherever a concrete body is decoded.
\<close>

record Outcome =
  out_resp :: HTTPResponse
  out_effects :: "Effect list"
  out_req :: Request

definition Handle ::
  "(string \<Rightarrow> string + Receive) \<Rightarrow> (string \<Rightarrow> string \<Rightarrow> string) \<Rightarrow> HandlerSet \<Rightarrow>
   Messenger \<Rightarrow> Request \<Rightarrow> Outcome" where
  "Handle Unmarshal hmac_sha1 H m r =
     (if Method r = ''GET''
      then \<lparr>out_resp = verifyHandler m r, out_effects = [], out_req = r\<rparr>
      else
        let ctx = req_Context r;
            (body, r1) = ReadAll r;
            r2 = r1\<lparr>Body := body\<rparr>
        in (case Unmarshal body of
              Inl err \<Rightarrow>
                \<lparr>out_resp = http_Error err StatusUnprocessableEntity,
                 out_effects = [Println (''could not decode response: '' @ err)],
                 out_req = r2\<rparr>
            | Inr rec \<Rightarrow>
                if Object rec \<noteq> ''page''
                then \<lparr>out_resp =
                        http_Error (''Object is not page, undefined behaviour. Got: '' @ Object rec)
                          StatusUnprocessableEntity,
                      out_effects = [], out_req = r2\<rparr>
                else
                  (case (if verify m then checkIntegrity hmac_sha1 m r2 else (None, r2)) of
                     (Some err, r3) \<Rightarrow>
                       \<lparr>out_resp = http_Error (Error err) StatusForbidden,
                        out_effects = [Println (''could not verify request: '' @ Error err)],
                        out_req = r3\<rparr>
                   | (None, r3) \<Rightarrow>
                       \<lparr>out_resp = Fprintln ''{status: 'ok'}'',
                        out_effects = dispatch m H ctx rec,
                        out_req = r3\<rparr>)))"

section \<open>json.Unmarshal into a Receive\<close>

text \<open>
  Modelled from the spec: the struct tags of \<open>Receive\<close>, \<open>Entry\<close>, \<open>MessageInfo\<close>,
  \<open>Sender\<close> and \<open>Recipient\<close> are declared outside messenger.go. The spec's POST
  example gives the wire format: an object with the string \<open>object\<close> and the array
  \<open>entry\<close>; an entry with the array \<open>messaging\<close>; an event with the objects
  \<open>sender\<close> and \<open>recipient\<close>, each holding the number \<open>id\<close>, the number
  \<open>timestamp\<close>, and a payload object such as \<open>message\<close>. These keys are the field
  names of the source in lower case, which \<open>encoding/json\<close> matches without regard to
  case; the other union fields follow the same rule (\<open>delivery\<close>, \<open>read\<close>,
  \<open>postback\<close>, \<open>optin\<close>) or carry the platform's names (\<open>referral\<close>,
  \<open>account_linking\<close>). A payload object is kept as written in \<open>pl_Rest\<close>, and its
  \<open>Sender\<close>, \<open>Recipient\<close> and \<open>Time\<close> are left at their zero values.

  The decoder covers JSON documents with ASCII keys, no key twice in an object and no
  unicode escape in a string. As in Go, a document is checked as a whole before
  anything is decoded, unknown keys are skipped, \<open>null\<close> leaves a field at its zero
  value, and a value of the wrong kind or an integer outside \<open>int64\<close> is an error.
  The text of an error other than the end of the input names the offending character
  or field in Go; here each kind of error has one fixed text.
\<close>

text \<open>
  A parsed document. An object keeps the text it was written as, next to its members
  in order.
\<close>

datatype JSON =
    JNull
  | JBool bool
  | JNumber string
  | JString string
  | JArray "JSON list"
  | JObject string "(string \<times> JSON) list"

text \<open>Scanning: white space, string literals after the opening quote, numbers, literals.\<close>

definition is_space :: "char \<Rightarrow> bool" where
  "is_space c \<longleftrightarrow> c = CHR '' '' \<or> c = CHR 0x09 \<or> c = CHR 0x0A \<or> c = CHR 0x0D"

definition skip_space :: "string \<Rightarrow> string" where
  "skip_space s = dropWhile is_space s"

definition is_digit :: "char \<Rightarrow> bool" where
  "is_digit c \<longleftrightarrow> c \<in> set ''0123456789''"

definition unescape :: "char \<Rightarrow> char option" where
  "unescape e =
     map_of [(CHR 0x22, CHR 0x22), (CHR 0x5C, CHR 0x5C), (CHR ''/'', CHR ''/''),
             (CHR ''b'', CHR 0x08), (CHR ''f'', CHR 0x0C), (CHR ''n'', CHR 0x0A),
             (CHR ''r'', CHR 0x0D), (CHR ''t'', CHR 0x09)] e"

fun scan_string :: "string \<Rightarrow> string \<Rightarrow> (string \<times> string) option" where
  "scan_string acc [] = None"
| "scan_string acc [c] = (if c = CHR 0x22 then Some (rev acc, []) else None)"
| "scan_string acc (c # e # cs) =
     (if c = CHR 0x22 then Some (rev acc, e # cs)
      else if c = CHR 0x5C then
        (case unescape e of None \<Rightarrow> None | Some d \<Rightarrow> scan_string (d # acc) cs)
      else if (of_char c :: nat) < 32 then None
      else scan_string (c # acc) (e # cs))"

definition digits_of :: "string \<Rightarrow> string" where
  "digits_of s = takeWhile is_digit s"

definition scan_int :: "string \<Rightarrow> (string \<times> string) option" where
  "scan_int s =
     (let ds = digits_of s in
      if ds = [] then None
      else if hd ds = CHR ''0'' then Some (''0'', tl s)
      else Some (ds, dropWhile is_digit s))"

definition scan_frac :: "string \<Rightarrow> (string \<times> string) option" where
  "scan_frac s =
     (case s of
        [] \<Rightarrow> Some ([], [])
      | c # cs \<Rightarrow>
          if c = CHR ''.'' then
            (if digits_of cs = [] then None else Some (c # digits_of cs, dropWhile is_digit cs))
          else Some ([], s))"

definition scan_exp :: "string \<Rightarrow> (string \<times> string) option" where
  "scan_exp s =
     (case s of
        [] \<Rightarrow> Some ([], [])
      | c # cs \<Rightarrow>
          if c = CHR ''e'' \<or> c = CHR ''E'' then
            (let sign = (case cs of [] \<Rightarrow> [] | d # ds \<Rightarrow> if d = CHR ''+'' \<or> d = CHR ''-'' then [d] else []);
                 rest = drop (length sign) cs
             in if digits_of rest = [] then None
                else Some (c # sign @ digits_of rest, dropWhile is_digit rest))
          else Some ([], s))"

definition scan_number :: "string \<Rightarrow> (string \<times> string) option" where
  "scan_number s =
     (let sign = (case s of [] \<Rightarrow> [] | c # cs \<Rightarrow> if c = CHR ''-'' then [c] else []) in
      case scan_int (drop (length sign) s) of
        None \<Rightarrow> None
      | Some (i, r1) \<Rightarrow>
          (case scan_frac r1 of
             None \<Rightarrow> None
           | Some (f, r2) \<Rightarrow>
               (case scan_exp r2 of
                  None \<Rightarrow> None
                | Some (e, r3) \<Rightarrow> Some (sign @ i @ f @ e, r3))))"

definition scan_literal :: "string \<Rightarrow> (JSON \<times> string) option" where
  "scan_literal s =
     (if take 4 s = ''true'' then Some (JBool True, drop 4 s)
      else if take 5 s = ''false'' then Some (JBool False, drop 5 s)
      else if take 4 s = ''null'' then Some (JNull, drop 4 s)
      else (case scan_number s of None \<Rightarrow> None | Some (n, r) \<Rightarrow> Some (JNumber n, r)))"

text \<open>\<open>consumed s r\<close>: what was read of \<open>s\<close> when \<open>r\<close> is left of it.\<close>

definition consumed :: "string \<Rightarrow> string \<Rightarrow> string" where
  "consumed s r = take (length s - length r) s"

text \<open>
  The recursive descent over values, array elements after the first, and object
  members. The first argument is fuel, one unit per call; \<open>parse_document\<close> gives
  one unit per character of the document and one more, which is enough for every
  document (lemma \<open>parse_document_fuel\<close> below).
\<close>

fun parse_value :: "string \<Rightarrow> string \<Rightarrow> (JSON \<times> string) option"
  and parse_elements :: "string \<Rightarrow> string \<Rightarrow> (JSON list \<times> string) option"
  and parse_members :: "string \<Rightarrow> string \<Rightarrow> ((string \<times> JSON) list \<times> string) option"
  where
  "parse_value [] s = None"
| "parse_value (f # fuel) s =
     (case skip_space s of
        [] \<Rightarrow> None
      | c # cs \<Rightarrow>
          if c = CHR ''{'' then
            (case skip_space cs of
               [] \<Rightarrow> None
             | d # ds \<Rightarrow>
                 if d = CHR ''}'' then Some (JObject (consumed (c # cs) ds) [], ds)
                 else
                   (case parse_members fuel cs of
                      None \<Rightarrow> None
                    | Some (ms, r) \<Rightarrow> Some (JObject (consumed (c # cs) r) ms, r)))
          else if c = CHR ''['' then
            (case skip_space cs of
               [] \<Rightarrow> None
             | d # ds \<Rightarrow>
                 if d = CHR '']'' then Some (JArray [], ds)
                 else
                   (case parse_value fuel cs of
                      None \<Rightarrow> None
                    | Some (v, r) \<Rightarrow>
                        (case parse_elements fuel r of
                           None \<Rightarrow> None
                         | Some (vs, r') \<Rightarrow> Some (JArray (v # vs), r'))))
          else if c = CHR 0x22 then
            (case scan_string [] cs of
               None \<Rightarrow> None
             | Some (t, r) \<Rightarrow> Some (JString t, r))
          else scan_literal (c # cs))"
| "parse_elements [] s = None"
| "parse_elements (f # fuel) s =
     (case skip_space s of
        [] \<Rightarrow> None
      | c # cs \<Rightarrow>
          if c = CHR '']'' then Some ([], cs)
          else if c = CHR '','' then
            (case parse_value fuel cs of
               None \<Rightarrow> None
             | Some (v, r) \<Rightarrow>
                 (case parse_elements fuel r of
                    None \<Rightarrow> None
                  | Some (vs, r') \<Rightarrow> Some (v # vs, r')))
          else None)"
| "parse_members [] s = None"
| "parse_members (f # fuel) s =
     (case skip_space s of
        [] \<Rightarrow> None
      | c # cs \<Rightarrow>
          if c = CHR 0x22 then
            (case scan_string [] cs of
               None \<Rightarrow> None
             | Some (k, r) \<Rightarrow>
                 (case skip_space r of
                    [] \<Rightarrow> None
                  | d # ds \<Rightarrow>
                      if d = CHR '':'' then
                        (case parse_value fuel ds of
                           None \<Rightarrow> None
                         | Some (v, r') \<Rightarrow>
                             (case skip_space r' of
                                [] \<Rightarrow> None
                              | e # es \<Rightarrow>
                                  if e = CHR ''}'' then Some ([(k, v)], es)
                                  else if e = CHR '','' then
                                    (case parse_members fuel es of
                                       None \<Rightarrow> None
                                     | Some (ms, r'') \<Rightarrow> Some ((k, v) # ms, r''))
                                  else None))
                      else None))
          else None)"

definition parse_document :: "string \<Rightarrow> JSON option" where
  "parse_document s =
     (case parse_value (CHR ''.'' # s) s of
        None \<Rightarrow> None
      | Some (v, r) \<Rightarrow> if skip_space r = [] then Some v else None)"

text \<open>
  Decoding into the structs. \<open>member\<close> finds a key without regard to (ASCII) case;
  \<open>field\<close> decodes the member if it is there and keeps the zero value otherwise.
\<close>

definition member :: "string \<Rightarrow> (string \<times> JSON) list \<Rightarrow> JSON option" where
  "member key ms = map_of (rev (map (\<lambda>kv. (ToLower (fst kv), snd kv)) ms)) key"

definition field ::
  "string \<Rightarrow> (string \<times> JSON) list \<Rightarrow> (JSON \<Rightarrow> 'a option) \<Rightarrow> 'a \<Rightarrow> 'a option" where
  "field key ms dec zero = (case member key ms of None \<Rightarrow> Some zero | Some v \<Rightarrow> dec v)"

definition digit_value :: "char \<Rightarrow> int" where
  "digit_value c = int (of_char c) - 48"

definition int_of_digits :: "string \<Rightarrow> int" where
  "int_of_digits ds = foldl (\<lambda>a c. 10 * a + digit_value c) 0 ds"

definition int_of_literal :: "string \<Rightarrow> int option" where
  "int_of_literal n =
     (case n of
        [] \<Rightarrow> None
      | c # cs \<Rightarrow>
          if c = CHR ''-'' then
            (if cs \<noteq> [] \<and> list_all is_digit cs then Some (- int_of_digits cs) else None)
          else if list_all is_digit n then Some (int_of_digits n)
          else None)"

definition decode_int64 :: "JSON \<Rightarrow> int64 option" where
  "decode_int64 v =
     (case v of
        JNull \<Rightarrow> Some 0
      | JNumber n \<Rightarrow>
          (case int_of_literal n of
             None \<Rightarrow> None
           | Some i \<Rightarrow> if - (2 ^ 63) \<le> i \<and> i < 2 ^ 63 then Some (word_of_int i) else None)
      | _ \<Rightarrow> None)"

definition decode_string :: "JSON \<Rightarrow> string option" where
  "decode_string v = (case v of JNull \<Rightarrow> Some [] | JString t \<Rightarrow> Some t | _ \<Rightarrow> None)"

fun decode_all :: "(JSON \<Rightarrow> 'a option) \<Rightarrow> JSON list \<Rightarrow> 'a list option" where
  "decode_all dec [] = Some []"
| "decode_all dec (v # vs) =
     (case dec v of
        None \<Rightarrow> None
      | Some x \<Rightarrow> (case decode_all dec vs of None \<Rightarrow> None | Some xs \<Rightarrow> Some (x # xs)))"

definition decode_slice :: "(JSON \<Rightarrow> 'a option) \<Rightarrow> JSON \<Rightarrow> 'a list option" where
  "decode_slice dec v =
     (case v of JNull \<Rightarrow> Some [] | JArray vs \<Rightarrow> decode_all dec vs | _ \<Rightarrow> None)"

definition decode_id :: "JSON \<Rightarrow> int64 option" where
  "decode_id v =
     (case v of
        JNull \<Rightarrow> Some 0
      | JObject raw ms \<Rightarrow> field ''id'' ms decode_int64 0
      | _ \<Rightarrow> None)"

definition zero_Payload :: "string \<Rightarrow> Payload" where
  "zero_Payload rest =
     \<lparr>pl_Sender = MkSender 0, pl_Recipient = MkRecipient 0, pl_Time = ZeroTime, pl_Rest = rest\<rparr>"

definition decode_Payload :: "JSON \<Rightarrow> Payload option option" where
  "decode_Payload v =
     (case v of
        JNull \<Rightarrow> Some None
      | JObject raw ms \<Rightarrow> Some (Some (zero_Payload raw))
      | _ \<Rightarrow> None)"

definition zero_MessageInfo :: MessageInfo where
  "zero_MessageInfo =
     \<lparr>info_Sender = MkSender 0, info_Recipient = MkRecipient 0, info_Timestamp = 0,
      info_Message = None, info_Delivery = None, info_Read = None, info_PostBack = None,
      info_OptIn = None, info_ReferralMessage = None, info_AccountLinking = None\<rparr>"

definition decode_MessageInfo :: "JSON \<Rightarrow> MessageInfo option" where
  "decode_MessageInfo v =
     (case v of
        JNull \<Rightarrow> Some zero_MessageInfo
      | JObject raw ms \<Rightarrow>
          Option.bind (field ''sender'' ms decode_id 0) (\<lambda>s.
          Option.bind (field ''recipient'' ms decode_id 0) (\<lambda>r.
          Option.bind (field ''timestamp'' ms decode_int64 0) (\<lambda>t.
          Option.bind (field ''message'' ms decode_Payload None) (\<lambda>p1.
          Option.bind (field ''delivery'' ms decode_Payload None) (\<lambda>p2.
          Option.bind (field ''read'' ms decode_Payload None) (\<lambda>p3.
          Option.bind (field ''postback'' ms decode_Payload None) (\<lambda>p4.
          Option.bind (field ''optin'' ms decode_Payload None) (\<lambda>p5.
          Option.bind (field ''referral'' ms decode_Payload None) (\<lambda>p6.
          Option.bind (field ''account_linking'' ms decode_Payload None) (\<lambda>p7.
            Some \<lparr>info_Sender = MkSender s, info_Recipient = MkRecipient r,
                  info_Timestamp = t, info_Message = p1, info_Delivery = p2, info_Read = p3,
                  info_PostBack = p4, info_OptIn = p5, info_ReferralMessage = p6,
                  info_AccountLinking = p7\<rparr>))))))))))
      | _ \<Rightarrow> None)"

definition decode_Entry :: "JSON \<Rightarrow> Entry option" where
  "decode_Entry v =
     (case v of
        JNull \<Rightarrow> Some \<lparr>Messaging = []\<rparr>
      | JObject raw ms \<Rightarrow>
          map_option (\<lambda>is. \<lparr>Messaging = is\<rparr>)
            (field ''messaging'' ms (decode_slice decode_MessageInfo) [])
      | _ \<Rightarrow> None)"

definition decode_Receive :: "JSON \<Rightarrow> Receive option" where
  "decode_Receive v =
     (case v of
        JNull \<Rightarrow> Some \<lparr>Object = [], Entries = []\<rparr>
      | JObject raw ms \<Rightarrow>
          Option.bind (field ''object'' ms decode_string []) (\<lambda>obj.
          Option.bind (field ''entry'' ms (decode_slice decode_Entry) []) (\<lambda>es.
            Some \<lparr>Object = obj, Entries = es\<rparr>))
      | _ \<Rightarrow> None)"

text \<open>
  \<open>json.Unmarshal(body, &rec)\<close> on a zero \<open>rec\<close>: the error text, or the decoded
  value.
\<close>

definition json_Unmarshal :: "string \<Rightarrow> string + Receive" where
  "json_Unmarshal body =
     (if skip_space body = [] then Inl ''unexpected end of JSON input''
      else
        (case parse_document body of
           None \<Rightarrow> Inl ''invalid JSON''
         | Some v \<Rightarrow>
             (case decode_Receive v of
                None \<Rightarrow> Inl ''json: cannot unmarshal into Go value of type messenger.Receive''
              | Some rec \<Rightarrow> Inr rec)))"

section \<open>Helper views used in the statements\<close>

text \<open>The union field and the handler list that belong to a category.\<close>

fun payload_of :: "Action \<Rightarrow> MessageInfo \<Rightarrow> Payload option" where
  "payload_of TextAction info = info_Message info"
| "payload_of DeliveryAction info = info_Delivery info"
| "payload_of ReadAction info = info_Read info"
| "payload_of PostBackAction info = info_PostBack info"
| "payload_of OptInAction info = info_OptIn info"
| "payload_of ReferralAction info = info_ReferralMessage info"
| "payload_of AccountLinkingAction info = info_AccountLinking info"
| "payload_of UnknownAction info = None"

fun handlers_of :: "Action \<Rightarrow> HandlerSet \<Rightarrow> nat list" where
  "handlers_of TextAction H = messageHandlers H"
| "handlers_of DeliveryAction H = deliveryHandlers H"
| "handlers_of ReadAction H = readHandlers H"
| "handlers_of PostBackAction H = postBackHandlers H"
| "handlers_of OptInAction H = optInHandlers H"
| "handlers_of ReferralAction H = referralHandlers H"
| "handlers_of AccountLinkingAction H = accountLinkingHandlers H"
| "handlers_of UnknownAction H = []"

text \<open>The reply handle \<open>dispatch\<close> builds for an event.\<close>

definition response_for :: "Messenger \<Rightarrow> MessageInfo \<Rightarrow> Response" where
  "response_for m info =
     \<lparr>resp_to = MkRecipient (sender_ID (info_Sender info)),
      resp_token = token m, resp_client = client m\<rparr>"

section \<open>Sample inputs\<close>

text \<open>
  Concrete inputs for the examples. The keyed hash is a parameter of every theorem;
  the examples need one, and \<open>mac_sample\<close> is never evaluated in them.
\<close>

definition no_payload :: MessageInfo where
  "no_payload =
     \<lparr>info_Sender = MkSender 1, info_Recipient = MkRecipient 2, info_Timestamp = 1000000,
      info_Message = None, info_Delivery = None, info_Read = None, info_PostBack = None,
      info_OptIn = None, info_ReferralMessage = None, info_AccountLinking = None\<rparr>"

definition body_page :: string where
  \<open>body_page = ''{"object":"page","entry":[{"messaging":[{"sender":{"id":1},"recipient":{"id":2},"timestamp":1000000,"message":{"text":"hi"}}]}]}''\<close>

definition payload_hi :: Payload where
  \<open>payload_hi = zero_Payload ''{"text":"hi"}''\<close>

definition info_page :: MessageInfo where
  "info_page = no_payload\<lparr>info_Message := Some payload_hi\<rparr>"

definition rec_page :: Receive where
  "rec_page = \<lparr>Object = ''page'', Entries = [\<lparr>Messaging = [info_page]\<rparr>]\<rparr>"

definition body_user :: string where
  \<open>body_user = ''{"object":"user"}''\<close>

definition rec_user :: Receive where
  "rec_user = \<lparr>Object = ''user'', Entries = []\<rparr>"

definition mac_sample :: "string \<Rightarrow> string \<Rightarrow> string" where
  "mac_sample key body = key @ body"

definition payload_delivery :: Payload where
  \<open>payload_delivery = zero_Payload ''{"watermark":5}''\<close>

definition payload_read :: Payload where
  \<open>payload_read = zero_Payload ''{"watermark":7}''\<close>

definition info_delivery :: MessageInfo where
  "info_delivery = no_payload\<lparr>info_Delivery := Some payload_delivery\<rparr>"

definition info_ambiguous :: MessageInfo where
  "info_ambiguous =
     no_payload\<lparr>info_Delivery := Some payload_delivery, info_Read := Some payload_read\<rparr>"

definition H_one :: HandlerSet where
  "H_one =
     \<lparr>messageHandlers = [0], deliveryHandlers = [1], readHandlers = [2],
      postBackHandlers = [3], optInHandlers = [4], referralHandlers = [5],
      accountLinkingHandlers = [6]\<rparr>"

definition m_verify :: Messenger where
  "m_verify = New \<lparr>opt_Verify = True, opt_AppSecret = ''secret'', opt_VerifyToken = ''abc'',
                   opt_Token = ''tok'', opt_Client = None\<rparr>"

definition m_trusting :: Messenger where
  "m_trusting = New \<lparr>opt_Verify = False, opt_AppSecret = [], opt_VerifyToken = ''abc'',
                     opt_Token = ''tok'', opt_Client = None\<rparr>"

definition post_req :: "(string \<times> string) list \<Rightarrow> string \<Rightarrow> Request" where
  "post_req h b = \<lparr>Method = ''POST'', Form = [], Header = h, Body = b, req_Context = 0\<rparr>"

definition get_req :: "(string \<times> string) list \<Rightarrow> Request" where
  "get_req q = \<lparr>Method = ''GET'', Form = q, Header = [], Body = [], req_Context = 0\<rparr>"

section \<open>Shared lemmas\<close>

lemma classify_populated:
  "classify m info e = a \<Longrightarrow> a \<noteq> UnknownAction \<Longrightarrow> payload_of a info \<noteq> None"
  by (auto split: if_splits)

lemma dispatch_info_Unknown:
  "classify m info e = UnknownAction \<Longrightarrow> dispatch_info m H ctx info e = [PrintlnUnknown info]"
  by (simp add: dispatch_info_def Let_def del: classify.simps)

lemma dispatch_info_known:
  assumes "classify m info e = a" "a \<noteq> UnknownAction" "payload_of a info = Some p"
  shows "dispatch_info m H ctx info e =
           map (\<lambda>f. Call a f ctx (if a = DeliveryAction \<or> a = ReadAction then p else enrich info p)
                       (response_for m info))
             (handlers_of a H)"
  using assms
  by (cases a) (simp_all add: dispatch_info_def Let_def response_for_def del: classify.simps)

lemma dispatch_messaging_append:
  "dispatch_messaging m H ctx e (xs @ ys) =
     dispatch_messaging m H ctx e xs @ dispatch_messaging m H ctx e ys"
  by (induction xs) simp_all

lemma dispatch_entries_append:
  "dispatch_entries m H ctx (xs @ ys) = dispatch_entries m H ctx xs @ dispatch_entries m H ctx ys"
  by (induction xs) simp_all

lemma dispatch_messaging_concat:
  "dispatch_messaging m H ctx e infos = concat (map (\<lambda>i. dispatch_info m H ctx i e) infos)"
  by (induction infos) simp_all

lemma dispatch_entries_concat:
  "dispatch_entries m H ctx es =
     concat (map (\<lambda>e. concat (map (\<lambda>i. dispatch_info m H ctx i e) (Messaging e))) es)"
  by (induction es) (simp_all add: dispatch_messaging_concat)

text \<open>
  For every method but GET, \<open>Handle\<close> buffers the body, puts it back, and goes through
  decoding, the object check, the integrity check (in verify mode) and dispatch, in
  that order.
\<close>

lemma Handle_POST:
  "Method r \<noteq> ''GET'' \<Longrightarrow>
   Handle U mac H m r =
     (case U (Body r) of
        Inl err \<Rightarrow>
          \<lparr>out_resp = http_Error err StatusUnprocessableEntity,
           out_effects = [Println (''could not decode response: '' @ err)],
           out_req = r\<rparr>
      | Inr rec \<Rightarrow>
          if Object rec \<noteq> ''page''
          then \<lparr>out_resp =
                  http_Error (''Object is not page, undefined behaviour. Got: '' @ Object rec)
                    StatusUnprocessableEntity,
                out_effects = [], out_req = r\<rparr>
          else
            (case (if verify m then checkIntegrity mac m r else (None, r)) of
               (Some err, r3) \<Rightarrow>
                 \<lparr>out_resp = http_Error (Error err) StatusForbidden,
                  out_effects = [Println (''could not verify request: '' @ Error err)],
                  out_req = r3\<rparr>
             | (None, r3) \<Rightarrow>
                 \<lparr>out_resp = Fprintln ''{status: 'ok'}'',
                  out_effects = dispatch m H (req_Context r) rec,
                  out_req = r3\<rparr>))"
  by (auto simp: Handle_def ReadAll_def Let_def split: sum.splits prod.splits option.splits)

lemma checkIntegrity_req: "snd (checkIntegrity mac m r) = r"
  by (simp add: checkIntegrity_def ReadAll_def Let_def)

lemma Handle_GET:
  "Method r = ''GET'' \<Longrightarrow>
   Handle U mac H m r = \<lparr>out_resp = verifyHandler m r, out_effects = [], out_req = r\<rparr>"
  by (simp add: Handle_def)

lemma int64_quo_sample: "int64_quo 1000000 time_Microsecond = 1000"
  by (simp add: int64_quo_def time_Microsecond_def signed_divide_int_def)

subsection \<open>The fuel of the parser\<close>

text \<open>
  Every scanner and every parsing function reads at least one character, and a parse
  that succeeds with some fuel succeeds, with the same result, with any fuel at least
  as long as the text it read. So the fuel \<open>parse_document\<close> gives is enough: it
  never turns a document that parses into an error.
\<close>

lemma skip_space_length: "length (skip_space s) \<le> length s"
  by (simp add: skip_space_def length_dropWhile_le)

lemma skip_space_Cons: "skip_space s = c # cs \<Longrightarrow> length cs < length s"
  using skip_space_length [of s] by simp

lemma scan_string_length: "scan_string acc s = Some (t, r) \<Longrightarrow> length r < length s"
  by (induction acc s rule: scan_string.induct)
     (force split: if_splits option.splits)+

lemma scan_int_length: "scan_int s = Some (i, r) \<Longrightarrow> length r < length s"
proof -
  assume a: "scan_int s = Some (i, r)"
  then have d: "digits_of s \<noteq> []"
    by (auto simp: scan_int_def Let_def split: if_splits)
  then have ne: "s \<noteq> []"
    by (auto simp: digits_of_def)
  from d have "length (dropWhile is_digit s) < length s"
    unfolding digits_of_def
    by (metis takeWhile_dropWhile_id length_append length_greater_0_conv
        less_add_same_cancel2 add.commute)
  with a ne show ?thesis
    by (auto simp: scan_int_def Let_def split: if_splits)
qed

lemma scan_frac_length: "scan_frac s = Some (f, r) \<Longrightarrow> length r \<le> length s"
  by (auto simp: scan_frac_def split: list.splits if_splits
      intro: le_SucI length_dropWhile_le)

lemma scan_exp_length: "scan_exp s = Some (e, r) \<Longrightarrow> length r \<le> length s"
  by (auto simp: scan_exp_def Let_def split: list.splits if_splits
      intro: le_SucI order_trans [OF length_dropWhile_le])

lemma scan_number_length: "scan_number s = Some (n, r) \<Longrightarrow> length r < length s"
  by (auto simp: scan_number_def Let_def split: option.splits list.splits if_splits
      dest!: scan_int_length scan_frac_length scan_exp_length)

lemma scan_literal_length: "scan_literal s = Some (v, r) \<Longrightarrow> length r < length s"
  by (cases s) (auto simp: scan_literal_def split: if_splits option.splits
      dest!: scan_number_length)

lemma scan_literal_Cons_length:
  "scan_literal (c # cs) = Some (v, r) \<Longrightarrow> length r \<le> length cs"
  using scan_literal_length [of "c # cs" v r] by simp

lemma parse_fuel:
  "\<forall>s v r vs ms g.
     (parse_value fuel s = Some (v, r) \<longrightarrow>
        length r < length s \<and>
        (length s - length r \<le> length g \<longrightarrow> parse_value g s = Some (v, r))) \<and>
     (parse_elements fuel s = Some (vs, r) \<longrightarrow>
        length r < length s \<and>
        (length s - length r \<le> length g \<longrightarrow> parse_elements g s = Some (vs, r))) \<and>
     (parse_members fuel s = Some (ms, r) \<longrightarrow>
        length r < length s \<and>
        (length s - length r \<le> length g \<longrightarrow> parse_members g s = Some (ms, r)))"
proof (induction fuel)
  case Nil
  show ?case by simp
next
  case (Cons f fuel)
  have v: "length b < length t \<and>
           (length t - length b \<le> length h \<longrightarrow> parse_value h t = Some (a, b))"
    if "parse_value fuel t = Some (a, b)" for t a b h
    using Cons.IH that by blast
  have e: "length b < length t \<and>
           (length t - length b \<le> length h \<longrightarrow> parse_elements h t = Some (a, b))"
    if "parse_elements fuel t = Some (a, b)" for t a b h
    using Cons.IH that by blast
  have m: "length b < length t \<and>
           (length t - length b \<le> length h \<longrightarrow> parse_members h t = Some (a, b))"
    if "parse_members fuel t = Some (a, b)" for t a b h
    using Cons.IH that by blast
  have 1: "length r < length s \<and>
           (length s - length r \<le> length g \<longrightarrow> parse_value g s = Some (x, r))"
    if p: "parse_value (f # fuel) s = Some (x, r)" for s x r g
  proof (cases g)
    case Nil
    from p have "length r < length s"
      by (auto split: list.split_asm option.split_asm if_split_asm
          dest!: v e m skip_space_Cons scan_string_length scan_literal_Cons_length)
    then show ?thesis by (simp add: Nil)
  next
    case (Cons f' g')
    from p show ?thesis unfolding Cons
      by (auto split: list.split_asm option.split_asm if_split_asm
          dest!: v [where h = g'] e [where h = g'] m [where h = g']
            skip_space_Cons scan_string_length scan_literal_Cons_length)
        (arith+)?
  qed
  have 2: "length r < length s \<and>
           (length s - length r \<le> length g \<longrightarrow> parse_elements g s = Some (x, r))"
    if p: "parse_elements (f # fuel) s = Some (x, r)" for s x r g
  proof (cases g)
    case Nil
    from p have "length r < length s"
      by (auto split: list.split_asm option.split_asm if_split_asm
          dest!: v e m skip_space_Cons scan_string_length scan_literal_Cons_length)
    then show ?thesis by (simp add: Nil)
  next
    case (Cons f' g')
    from p show ?thesis unfolding Cons
      by (auto split: list.split_asm option.split_asm if_split_asm
          dest!: v [where h = g'] e [where h = g'] m [where h = g']
            skip_space_Cons scan_string_length scan_literal_Cons_length)
        (arith+)?
  qed
  have 3: "length r < length s \<and>
           (length s - length r \<le> length g \<longrightarrow> parse_members g s = Some (x, r))"
    if p: "parse_members (f # fuel) s = Some (x, r)" for s x r g
  proof (cases g)
    case Nil
    from p have "length r < length s"
      by (auto split: list.split_asm option.split_asm if_split_asm
          dest!: v e m skip_space_Cons scan_string_length scan_literal_Cons_length)
    then show ?thesis by (simp add: Nil)
  next
    case (Cons f' g')
    from p show ?thesis unfolding Cons
      by (auto split: list.split_asm option.split_asm if_split_asm
          dest!: v [where h = g'] e [where h = g'] m [where h = g']
            skip_space_Cons scan_string_length scan_literal_Cons_length)
        (arith+)?
  qed
  show ?case
    using 1 2 3 by blast
qed

lemma parse_document_fuel:
  assumes "parse_value fuel s = Some (v, r)" and "skip_space r = []"
  shows "parse_document s = Some v"
proof -
  have "length s - length r \<le> length (CHR ''.'' # s)"
    by simp
  with assms(1) have "parse_value (CHR ''.'' # s) s = Some (v, r)"
    using parse_fuel [of fuel] by blast
  with assms(2) show ?thesis
    by (simp add: parse_document_def)
qed

subsection \<open>Decoding the sample bodies\<close>

lemma json_Unmarshal_empty: "json_Unmarshal [] = Inl ''unexpected end of JSON input''"
  by (simp add: json_Unmarshal_def skip_space_def)

lemma json_Unmarshal_body_user: "json_Unmarshal body_user = Inr rec_user"
  by code_simp

lemma json_Unmarshal_body_page: "json_Unmarshal body_page = Inr rec_page"
  by code_simp

subsection \<open>Splitting, lower-casing and hexadecimal digits\<close>

lemma SplitN2_length: "length (SplitN2 s) = 1 \<or> length (SplitN2 s) = 2"
  by (simp add: SplitN2_def)

lemma SplitN2_sep: "CHR ''='' \<notin> set a \<Longrightarrow> SplitN2 (a @ ''='' @ b) = [a, b]"
  by (simp add: SplitN2_def takeWhile_append dropWhile_append)

lemma hex_digit_lower: "lower_char (hex_digit n) = hex_digit n"
proof -
  have "\<forall>k \<in> set [0..<16]. lower_char (''0123456789abcdef'' ! k) = ''0123456789abcdef'' ! k"
    by (simp add: upt_rec lower_char_def)
  moreover have "n mod 16 \<in> set [0..<16]"
    by simp
  ultimately show ?thesis
    unfolding hex_digit_def by blast
qed

lemma ToLower_hex: "ToLower (hex bs) = hex bs"
  by (induction bs) (simp_all add: ToLower_def hex_def hex_digit_lower)

lemma hex_digit_inj: "i < 16 \<Longrightarrow> j < 16 \<Longrightarrow> hex_digit i = hex_digit j \<Longrightarrow> i = j"
proof -
  have d: "distinct ''0123456789abcdef''"
    by simp
  have l: "length ''0123456789abcdef'' = 16"
    by simp
  show "i < 16 \<Longrightarrow> j < 16 \<Longrightarrow> hex_digit i = hex_digit j \<Longrightarrow> i = j"
    unfolding hex_digit_def using d l by (simp add: nth_eq_iff_index_eq)
qed

lemma hex_byte_inj:
  assumes "hex_digit (of_char a div 16) = hex_digit (of_char b div 16)"
    and "hex_digit (of_char a) = hex_digit (of_char b)"
  shows "a = b"
proof -
  have "(of_char c :: nat) mod 256 < 256" for c
    by (rule mod_less_divisor) simp
  then have la: "(of_char a :: nat) < 256" and lb: "(of_char b :: nat) < 256"
    by (simp_all only: of_char_mod_256)
  have "(of_char a :: nat) div 16 < 16" and "(of_char b :: nat) div 16 < 16"
    using la lb by arith+
  then have "(of_char a :: nat) div 16 = of_char b div 16"
    using assms(1) by (rule hex_digit_inj)
  moreover have "(of_char a :: nat) mod 16 = of_char b mod 16"
  proof (rule hex_digit_inj)
    show "hex_digit (of_char a mod 16) = hex_digit (of_char b mod 16)"
      using assms(2) by (simp add: hex_digit_def)
  qed simp_all
  ultimately have "(of_char a :: nat) = of_char b"
    by (metis div_mult_mod_eq)
  then show ?thesis
    by simp
qed

lemma hex_inj: "hex xs = hex ys \<Longrightarrow> xs = ys"
proof (induction xs arbitrary: ys)
  case Nil
  then show ?case by (cases ys) (simp_all add: hex_def)
next
  case (Cons x xs)
  then show ?case
    by (cases ys) (auto simp: hex_def dest: hex_byte_inj)
qed

subsection \<open>The checks of checkIntegrity, in order\<close>

text \<open>
  The verdict of \<open>checkIntegrity\<close> as one decision list: the empty secret first, then
  the absent header and the header without \<open>=\<close>, then the encoding token, then the
  comparison of the lowercase hexadecimal keyed hash of the body with the lower-cased
  hash of the header.
\<close>

lemma checkIntegrity_order:
  "fst (checkIntegrity mac m r) =
     (let hdr = Header_Get (Header r) sigHeader;
          enc = takeWhile (\<lambda>c. c \<noteq> CHR ''='') hdr;
          h = tl (dropWhile (\<lambda>c. c \<noteq> CHR ''='') hdr)
      in if appSecret m = [] then Some MissingAppSecret
         else if CHR ''='' \<notin> set hdr
           then (if hdr = [] then Some MissingHeader else Some (MalformedHeader hdr))
         else if ToLower enc \<noteq> ''sha1'' then Some (UnknownEncoding enc)
         else if hex (mac (appSecret m) (Body r)) \<noteq> ToLower h
           then Some (InvalidSignature (ToLower h))
         else None)"
  by (simp add: checkIntegrity_def SplitN2_def Let_def ReadAll_def checkSHA1_def)

text \<open>
  With a header \<open>sha1=<hex of the keyed hash of B>\<close> and a configured secret, the
  check passes exactly when the keyed hash of the body at hand equals that of \<open>B\<close>;
  in particular it passes for the body \<open>B\<close> itself. Whether a changed body or secret
  changes the keyed hash is a property of HMAC-SHA1, which is a parameter here.
\<close>

lemma checkIntegrity_signed:
  assumes "appSecret m \<noteq> []"
    and "Header_Get (Header r) sigHeader = ''sha1='' @ hex (mac (appSecret m) B)"
  shows "fst (checkIntegrity mac m r) = None \<longleftrightarrow>
           mac (appSecret m) (Body r) = mac (appSecret m) B"
proof -
  have s: "SplitN2 (''sha1'' @ ''='' @ hex (mac (appSecret m) B)) =
             [''sha1'', hex (mac (appSecret m) B)]"
    by (rule SplitN2_sep) simp
  have l: "ToLower ''sha1'' = ''sha1''"
    by (simp add: ToLower_def lower_char_def)
  have "fst (checkIntegrity mac m r) =
          checkSHA1 mac m (Body r) (hex (mac (appSecret m) B))"
    using assms s l by (simp add: checkIntegrity_def Let_def ReadAll_def ToLower_hex)
  then show ?thesis
    by (auto simp: checkSHA1_def dest: hex_inj)
qed

lemma checkIntegrity_valid:
  assumes "appSecret m \<noteq> []"
    and "Header_Get (Header r) sigHeader = ''sha1='' @ hex (mac (appSecret m) (Body r))"
  shows "fst (checkIntegrity mac m r) = None"
  using assms checkIntegrity_signed [of m r mac "Body r"] by simp

section \<open>The order of the POST pipeline\<close>

text \<open>
  C1, as stated: in verify mode, a POST whose signature fails the integrity check is
  answered 403 whatever its body. It fails on the empty body without a signature
  header: \<open>Handle\<close> decodes first, the decoder rejects the body, and the answer is 422.
\<close>

theorem Handle_integrity_first_counterexample:
  "Method (post_req [] []) = ''POST'' \<and> verify m_verify \<and>
   fst (checkIntegrity mac_sample m_verify (post_req [] [])) = Some MissingHeader \<and>
   Status (out_resp (Handle json_Unmarshal mac_sample H_one m_verify (post_req [] []))) = 422"
  by (simp add: Handle_POST post_req_def m_verify_def New_def checkIntegrity_def Header_Get_def
      SplitN2_def sigHeader_def json_Unmarshal_empty http_Error_def
      StatusUnprocessableEntity_def)

text \<open>
  C1, amended: in verify mode, a POST whose signature fails the integrity check never
  reaches a handler; the status is 403 when the body decodes to an envelope of object
  \<open>page\<close>, and 422 when the body does not decode or the object is another one, since
  decoding and the object check come before the integrity check.
\<close>

theorem Handle_integrity_failure:
  assumes "Method r = ''POST''" and "verify m" and "fst (checkIntegrity mac m r) = Some err"
  shows "calls (out_effects (Handle U mac H m r)) = [] \<and>
         Status (out_resp (Handle U mac H m r)) =
           (case U (Body r) of
              Inl e \<Rightarrow> 422
            | Inr rec \<Rightarrow> if Object rec = ''page'' then 403 else 422)"
  using assms
  by (cases "checkIntegrity mac m r")
     (auto simp: Handle_POST http_Error_def StatusUnprocessableEntity_def StatusForbidden_def
        calls_def split: sum.splits)

theorem Handle_integrity_failure_witness:
  "Method (post_req [] body_page) = ''POST'' \<and> verify m_verify \<and>
   fst (checkIntegrity mac_sample m_verify (post_req [] body_page)) = Some MissingHeader \<and>
   calls (out_effects
     (Handle json_Unmarshal mac_sample H_one m_verify (post_req [] body_page))) = [] \<and>
   Status (out_resp
     (Handle json_Unmarshal mac_sample H_one m_verify (post_req [] body_page))) = 403"
proof -
  have a: "Method (post_req [] body_page) = ''POST''"
    by (simp add: post_req_def)
  have b: "verify m_verify"
    by (simp add: m_verify_def New_def)
  have c: "fst (checkIntegrity mac_sample m_verify (post_req [] body_page)) = Some MissingHeader"
    by (simp add: post_req_def m_verify_def New_def checkIntegrity_def Header_Get_def
        SplitN2_def sigHeader_def)
  have d: "json_Unmarshal (Body (post_req [] body_page)) = Inr rec_page"
    by (simp add: post_req_def json_Unmarshal_body_page)
  have e: "Object rec_page = ''page''"
    by (simp add: rec_page_def)
  show ?thesis
    using a b c d e
      Handle_integrity_failure [of "post_req [] body_page" m_verify mac_sample MissingHeader
        json_Unmarshal H_one]
    by simp
qed

text \<open>
  C3: a POST whose body decodes to an envelope with an object other than \<open>page\<close> is
  answered 422, and nothing else happens: no dispatch, no handler call.
\<close>

theorem Handle_object_mismatch:
  assumes "Method r = ''POST''" and "U (Body r) = Inr rec" and "Object rec \<noteq> ''page''"
  shows "Status (out_resp (Handle U mac H m r)) = 422 \<and>
         out_effects (Handle U mac H m r) = [] \<and>
         calls (out_effects (Handle U mac H m r)) = []"
  using assms by (simp add: Handle_POST http_Error_def StatusUnprocessableEntity_def calls_def)

theorem Handle_object_mismatch_witness:
  "Method (post_req [] body_user) = ''POST'' \<and>
   json_Unmarshal (Body (post_req [] body_user)) = Inr rec_user \<and>
   Object rec_user \<noteq> ''page'' \<and>
   Status (out_resp
     (Handle json_Unmarshal mac_sample H_one m_trusting (post_req [] body_user))) = 422 \<and>
   out_effects (Handle json_Unmarshal mac_sample H_one m_trusting (post_req [] body_user)) = []"
proof -
  have a: "Method (post_req [] body_user) = ''POST''"
    by (simp add: post_req_def)
  have b: "json_Unmarshal (Body (post_req [] body_user)) = Inr rec_user"
    by (simp add: post_req_def json_Unmarshal_body_user)
  have c: "Object rec_user \<noteq> ''page''"
    by (simp add: rec_user_def)
  show ?thesis
    using a b c
      Handle_object_mismatch [of "post_req [] body_user" json_Unmarshal rec_user mac_sample
        H_one m_trusting]
    by simp
qed

section \<open>The classifier\<close>

text \<open>
  C2: \<open>classify\<close> depends on the event only, and returns the category of the first
  populated union field in the order Message, Delivery, Read, PostBack, OptIn,
  ReferralMessage, AccountLinking: Unknown when no field is populated, the matching
  category when exactly one is, and the earlier-listed category when several are.
\<close>

theorem classify_precedence:
  "classify m info e = first_populated info \<and>
   classify m info e = classify m' info e' \<and>
   (populated info = [] \<longrightarrow> classify m info e = UnknownAction) \<and>
   (populated info = [a] \<longrightarrow> classify m info e = a) \<and>
   (populated info = a # rest \<longrightarrow> classify m info e = a) \<and>
   (a \<noteq> UnknownAction \<and> payload_of a info \<noteq> None \<and>
      (\<forall>b. b \<noteq> a \<longrightarrow> payload_of b info = None) \<longrightarrow> classify m info e = a)"
proof -
  have first: "classify m info e = first_populated info"
    by (simp add: first_populated_def populated_def union_fields_def)
  have pure: "classify m info e = classify m' info e'"
    by simp
  have single: "classify m info e = a"
    if "a \<noteq> UnknownAction" and "payload_of a info \<noteq> None"
      and others: "\<forall>b. b \<noteq> a \<longrightarrow> payload_of b info = None"
  proof -
    have "payload_of b info = None" if "b \<noteq> a" for b
      using others that by blast
    from this [of TextAction] this [of DeliveryAction] this [of ReadAction]
      this [of PostBackAction] this [of OptInAction] this [of ReferralAction]
      this [of AccountLinkingAction] that(1,2)
    show ?thesis
      by (cases a) auto
  qed
  show ?thesis
    using pure single by (auto simp: first first_populated_def simp del: classify.simps)
qed

theorem classify_precedence_witness:
  "populated info_ambiguous = [DeliveryAction, ReadAction] \<and>
   classify m_verify info_ambiguous \<lparr>Messaging = [info_ambiguous]\<rparr> = DeliveryAction \<and>
   populated no_payload = [] \<and>
   classify m_verify no_payload \<lparr>Messaging = []\<rparr> = UnknownAction \<and>
   populated info_delivery = [DeliveryAction] \<and>
   payload_of DeliveryAction info_delivery = Some payload_delivery \<and>
   payload_of TextAction info_delivery = None \<and>
   payload_of ReadAction info_delivery = None \<and>
   payload_of PostBackAction info_delivery = None \<and>
   payload_of OptInAction info_delivery = None \<and>
   payload_of ReferralAction info_delivery = None \<and>
   payload_of AccountLinkingAction info_delivery = None \<and>
   classify m_verify info_delivery \<lparr>Messaging = []\<rparr> = DeliveryAction"
proof -
  have a: "populated info_ambiguous = [DeliveryAction, ReadAction]"
    by (simp add: populated_def union_fields_def info_ambiguous_def no_payload_def)
  have b: "populated no_payload = []"
    by (simp add: populated_def union_fields_def no_payload_def)
  have c: "populated info_delivery = [DeliveryAction]"
    by (simp add: populated_def union_fields_def info_delivery_def no_payload_def)
  have d: "payload_of DeliveryAction info_delivery \<noteq> None"
    by (simp add: info_delivery_def)
  have e: "\<forall>b. b \<noteq> DeliveryAction \<longrightarrow> payload_of b info_delivery = None"
  proof (intro allI impI)
    fix b :: Action
    assume "b \<noteq> DeliveryAction"
    then show "payload_of b info_delivery = None"
      by (cases b) (simp_all add: info_delivery_def no_payload_def)
  qed
  have f: "classify m_verify info_ambiguous \<lparr>Messaging = [info_ambiguous]\<rparr> = DeliveryAction"
    using a
      classify_precedence [of m_verify info_ambiguous "\<lparr>Messaging = [info_ambiguous]\<rparr>" m_verify
        "\<lparr>Messaging = [info_ambiguous]\<rparr>" DeliveryAction "[ReadAction]"]
    by blast
  have g: "classify m_verify no_payload \<lparr>Messaging = []\<rparr> = UnknownAction"
    using b
      classify_precedence [of m_verify no_payload "\<lparr>Messaging = []\<rparr>" m_verify
        "\<lparr>Messaging = []\<rparr>" DeliveryAction "[]"]
    by blast
  have h: "classify m_verify info_delivery \<lparr>Messaging = []\<rparr> = DeliveryAction"
    using d e
      classify_precedence [of m_verify info_delivery "\<lparr>Messaging = []\<rparr>" m_verify
        "\<lparr>Messaging = []\<rparr>" DeliveryAction "[]"]
    by blast
  have i: "payload_of DeliveryAction info_delivery = Some payload_delivery"
    "payload_of TextAction info_delivery = None"
    "payload_of ReadAction info_delivery = None"
    "payload_of PostBackAction info_delivery = None"
    "payload_of OptInAction info_delivery = None"
    "payload_of ReferralAction info_delivery = None"
    "payload_of AccountLinkingAction info_delivery = None"
    by (simp_all add: info_delivery_def no_payload_def)
  show ?thesis
    using a b c f g h i by blast
qed

section \<open>The dispatcher\<close>

text \<open>
  C5, as stated: every handler receives the populated payload enriched with the
  event's sender, recipient and derived time, Delivery and Read included. It fails
  on a Delivery event: the delivery handler receives the payload as decoded, whose
  sender, recipient and time are not those of the event.
\<close>

theorem dispatch_enrich_all_counterexample:
  "classify m_verify info_delivery \<lparr>Messaging = [info_delivery]\<rparr> = DeliveryAction \<and>
   dispatch m_verify H_one 0 \<lparr>Object = ''page'', Entries = [\<lparr>Messaging = [info_delivery]\<rparr>]\<rparr> =
     [Call DeliveryAction 1 0 payload_delivery (response_for m_verify info_delivery)] \<and>
   pl_Sender payload_delivery \<noteq> info_Sender info_delivery \<and>
   pl_Recipient payload_delivery \<noteq> info_Recipient info_delivery \<and>
   pl_Time payload_delivery \<noteq>
     Unix (int64_quo (info_Timestamp info_delivery) time_Microsecond) 0"
  by (simp add: dispatch_def dispatch_info_def Let_def info_delivery_def no_payload_def
      payload_delivery_def zero_Payload_def H_one_def response_for_def)

text \<open>
  C5, amended: for an event of category Text, PostBack, OptIn, Referral or
  AccountLinking, every handler of that category receives the populated payload with
  its sender and recipient set to the event's and its time set to
  \<open>time.Unix(timestamp / 1000, 0)\<close>; for an event of category Delivery or Read, every
  handler receives the populated payload unchanged. In both cases the handlers of the
  category are called in registration order with the reply handle of the sender.
\<close>

theorem dispatch_info_payload:
  assumes "classify m info e = a" and "a \<noteq> UnknownAction"
  shows "\<exists>p. payload_of a info = Some p \<and>
           dispatch_info m H ctx info e =
             map (\<lambda>f. Call a f ctx
                         (if a = DeliveryAction \<or> a = ReadAction then p
                          else p\<lparr>pl_Sender := info_Sender info,
                                 pl_Recipient := info_Recipient info,
                                 pl_Time := Unix (int64_quo (info_Timestamp info) 1000) 0\<rparr>)
                         (response_for m info))
               (handlers_of a H)"
proof -
  from assms obtain p where p: "payload_of a info = Some p"
    using classify_populated by blast
  have "dispatch_info m H ctx info e =
          map (\<lambda>f. Call a f ctx (if a = DeliveryAction \<or> a = ReadAction then p else enrich info p)
                      (response_for m info))
            (handlers_of a H)"
    using assms p by (rule dispatch_info_known)
  with p show ?thesis
    by (auto simp: enrich_def time_Microsecond_def)
qed

theorem dispatch_info_payload_witness:
  "classify m_verify info_page \<lparr>Messaging = [info_page]\<rparr> = TextAction \<and>
   TextAction \<noteq> UnknownAction \<and>
   (\<exists>p. payload_of TextAction info_page = Some p \<and>
        dispatch_info m_verify H_one 0 info_page \<lparr>Messaging = [info_page]\<rparr> =
          map (\<lambda>f. Call TextAction f 0
                      (p\<lparr>pl_Sender := info_Sender info_page,
                         pl_Recipient := info_Recipient info_page,
                         pl_Time := Unix (int64_quo (info_Timestamp info_page) 1000) 0\<rparr>)
                      (response_for m_verify info_page))
            (handlers_of TextAction H_one))"
proof -
  have a: "classify m_verify info_page \<lparr>Messaging = [info_page]\<rparr> = TextAction"
    by (simp add: info_page_def)
  have b: "TextAction \<noteq> UnknownAction"
    by simp
  show ?thesis
    using a b dispatch_info_payload [OF a b, of H_one 0] by simp
qed

text \<open>
  C6: \<open>dispatch\<close> goes through the entries, and through the events of each entry, in
  array order. An event classified Unknown contributes the log line and no handler
  call, and the events and entries after it are processed as if it were not there.
\<close>

theorem dispatch_skips_unknown:
  assumes "classify m info e = UnknownAction" and "Messaging e = pre @ info # post"
  shows "dispatch_info m H ctx info e = [PrintlnUnknown info] \<and>
         calls (dispatch_info m H ctx info e) = [] \<and>
         dispatch m H ctx \<lparr>Object = obj, Entries = es1 @ e # es2\<rparr> =
           dispatch_entries m H ctx es1 @
           dispatch_messaging m H ctx e pre @
           PrintlnUnknown info #
           dispatch_messaging m H ctx e post @
           dispatch_entries m H ctx es2 \<and>
         dispatch m H ctx r =
           concat (map (\<lambda>e. concat (map (\<lambda>i. dispatch_info m H ctx i e) (Messaging e)))
             (Entries r))"
proof -
  have u: "dispatch_info m H ctx info e = [PrintlnUnknown info]"
    using assms(1) by (rule dispatch_info_Unknown)
  have "dispatch_messaging m H ctx e (Messaging e) =
          dispatch_messaging m H ctx e pre @ PrintlnUnknown info #
          dispatch_messaging m H ctx e post"
    unfolding assms(2) dispatch_messaging_append by (simp add: u del: classify.simps)
  then have "dispatch_entries m H ctx (es1 @ e # es2) =
          dispatch_entries m H ctx es1 @
          dispatch_messaging m H ctx e pre @ PrintlnUnknown info #
          dispatch_messaging m H ctx e post @ dispatch_entries m H ctx es2"
    by (simp add: dispatch_entries_append)
  moreover have "calls (dispatch_info m H ctx info e) = []"
    by (simp add: u calls_def)
  moreover have "dispatch m H ctx r =
           concat (map (\<lambda>e. concat (map (\<lambda>i. dispatch_info m H ctx i e) (Messaging e)))
             (Entries r))"
    by (simp add: dispatch_def dispatch_entries_concat)
  ultimately show ?thesis
    using u by (simp add: dispatch_def)
qed

theorem dispatch_skips_unknown_witness:
  "classify m_verify no_payload \<lparr>Messaging = [info_delivery, no_payload, info_page]\<rparr> =
     UnknownAction \<and>
   dispatch m_verify H_one 0
     \<lparr>Object = ''page'',
      Entries = [\<lparr>Messaging = [info_delivery, no_payload, info_page]\<rparr>]\<rparr> =
     [Call DeliveryAction 1 0 payload_delivery (response_for m_verify info_delivery),
      PrintlnUnknown no_payload,
      Call TextAction 0 0 (enrich info_page payload_hi) (response_for m_verify info_page)]"
proof -
  let ?e = "\<lparr>Messaging = [info_delivery, no_payload, info_page]\<rparr>"
  have a: "classify m_verify no_payload ?e = UnknownAction"
    by (simp add: no_payload_def)
  have a': "Messaging ?e = [info_delivery] @ no_payload # [info_page]"
    by simp
  have b: "dispatch_messaging m_verify H_one 0 ?e [info_delivery] =
           [Call DeliveryAction 1 0 payload_delivery (response_for m_verify info_delivery)]"
    by (simp add: dispatch_info_def Let_def info_delivery_def no_payload_def H_one_def
        response_for_def)
  have c: "dispatch_messaging m_verify H_one 0 ?e [info_page] =
           [Call TextAction 0 0 (enrich info_page payload_hi) (response_for m_verify info_page)]"
    by (simp add: dispatch_info_def Let_def info_page_def no_payload_def H_one_def
        response_for_def)
  have "dispatch m_verify H_one 0 \<lparr>Object = ''page'', Entries = [] @ ?e # []\<rparr> =
          dispatch_entries m_verify H_one 0 [] @
          dispatch_messaging m_verify H_one 0 ?e [info_delivery] @
          PrintlnUnknown no_payload #
          dispatch_messaging m_verify H_one 0 ?e [info_page] @
          dispatch_entries m_verify H_one 0 []"
    using dispatch_skips_unknown [OF a a', of H_one 0 "''page''" "[]" "[]" rec_page] by blast
  then show ?thesis
    using a unfolding b c by (simp del: classify.simps)
qed

text \<open>
  C8, as stated: the POST of the spec's sample body, with verification off, makes one
  Text handler call whose message has sender 1, recipient 2 and the time of second 1.
  It fails on the time: the timestamp 1000000 is divided by 1000, and the handler
  receives the time of second 1000.
\<close>

theorem Handle_sample_time_counterexample:
  "Method (post_req [] body_page) = ''POST'' \<and> \<not> verify m_trusting \<and>
   json_Unmarshal (Body (post_req [] body_page)) = Inr rec_page \<and>
   out_effects (Handle json_Unmarshal mac_sample H_one m_trusting (post_req [] body_page)) =
     [Call TextAction 0 0
        (payload_hi\<lparr>pl_Sender := MkSender 1, pl_Recipient := MkRecipient 2,
                     pl_Time := Unix 1000 0\<rparr>)
        \<lparr>resp_to = MkRecipient 1, resp_token = ''tok'', resp_client = DefaultClient\<rparr>] \<and>
   out_effects (Handle json_Unmarshal mac_sample H_one m_trusting (post_req [] body_page)) \<noteq>
     [Call TextAction 0 0
        (payload_hi\<lparr>pl_Sender := MkSender 1, pl_Recipient := MkRecipient 2,
                     pl_Time := Unix 1 0\<rparr>)
        \<lparr>resp_to = MkRecipient 1, resp_token = ''tok'', resp_client = DefaultClient\<rparr>]"
  by (simp add: Handle_POST post_req_def json_Unmarshal_body_page rec_page_def m_trusting_def New_def
      dispatch_def dispatch_info_def Let_def info_page_def no_payload_def H_one_def enrich_def
      int64_quo_sample payload_hi_def zero_Payload_def)

text \<open>
  C8, amended: the POST of the spec's sample body, with verification off, calls each
  registered Text handler once, in registration order (one call when one handler is
  registered), with a message of sender 1, recipient 2 and time
  \<open>time.Unix(1000, 0)\<close>, the timestamp 1000000 divided by 1000; the response is 200
  with the fixed body \<open>{status: 'ok'}\<close> and a newline, however many handlers are
  registered.
\<close>

theorem Handle_sample_post:
  assumes "Method r = ''POST''" and "\<not> verify m" and "Body r = body_page"
  shows "out_effects (Handle json_Unmarshal mac H m r) =
           map (\<lambda>f. Call TextAction f (req_Context r)
                       (payload_hi\<lparr>pl_Sender := MkSender 1, pl_Recipient := MkRecipient 2,
                                    pl_Time := Unix 1000 0\<rparr>)
                       \<lparr>resp_to = MkRecipient 1, resp_token = token m, resp_client = client m\<rparr>)
             (messageHandlers H) \<and>
         length (calls (out_effects (Handle json_Unmarshal mac H m r))) =
           length (messageHandlers H) \<and>
         Status (out_resp (Handle json_Unmarshal mac H m r)) = 200 \<and>
         RespBody (out_resp (Handle json_Unmarshal mac H m r)) = ''{status: 'ok'}'' @ [CHR 0x0A]"
proof -
  have u: "json_Unmarshal (Body r) = Inr rec_page"
    using assms(3) by (simp add: json_Unmarshal_body_page)
  have h: "Handle json_Unmarshal mac H m r =
             \<lparr>out_resp = Fprintln ''{status: 'ok'}'',
              out_effects = dispatch m H (req_Context r) rec_page, out_req = r\<rparr>"
    using assms(1,2) u by (simp add: Handle_POST rec_page_def)
  have d: "dispatch m H (req_Context r) rec_page =
             map (\<lambda>f. Call TextAction f (req_Context r)
                         (payload_hi\<lparr>pl_Sender := MkSender 1, pl_Recipient := MkRecipient 2,
                                      pl_Time := Unix 1000 0\<rparr>)
                         \<lparr>resp_to = MkRecipient 1, resp_token = token m, resp_client = client m\<rparr>)
               (messageHandlers H)"
    by (simp add: dispatch_def rec_page_def dispatch_info_def Let_def info_page_def
        no_payload_def enrich_def int64_quo_sample)
  have c: "calls (map (\<lambda>f. Call TextAction f ctx p resp) fs) =
             map (\<lambda>f. Call TextAction f ctx p resp) fs" for ctx p resp fs
    by (induction fs) (simp_all add: calls_def)
  show ?thesis
    by (simp add: h d c Fprintln_def StatusOK_def)
qed

theorem Handle_sample_post_witness:
  "Method (post_req [] body_page) = ''POST'' \<and> \<not> verify m_trusting \<and>
   Body (post_req [] body_page) = body_page \<and>
   out_effects (Handle json_Unmarshal mac_sample H_one m_trusting (post_req [] body_page)) =
     [Call TextAction 0 0
        (payload_hi\<lparr>pl_Sender := MkSender 1, pl_Recipient := MkRecipient 2,
                     pl_Time := Unix 1000 0\<rparr>)
        \<lparr>resp_to = MkRecipient 1, resp_token = ''tok'', resp_client = DefaultClient\<rparr>] \<and>
   length (calls (out_effects
     (Handle json_Unmarshal mac_sample H_one m_trusting (post_req [] body_page)))) = 1 \<and>
   Status (out_resp
     (Handle json_Unmarshal mac_sample H_one m_trusting (post_req [] body_page))) = 200 \<and>
   RespBody (out_resp
     (Handle json_Unmarshal mac_sample H_one m_trusting (post_req [] body_page))) =
     ''{status: 'ok'}'' @ [CHR 0x0A]"
proof -
  have a: "Method (post_req [] body_page) = ''POST''"
    by (simp add: post_req_def)
  have b: "\<not> verify m_trusting"
    by (simp add: m_trusting_def New_def)
  have c: "Body (post_req [] body_page) = body_page"
    by (simp add: post_req_def)
  have e: "req_Context (post_req [] body_page) = 0" "messageHandlers H_one = [0]"
    "token m_trusting = ''tok''" "client m_trusting = DefaultClient"
    by (simp_all add: post_req_def H_one_def m_trusting_def New_def)
  show ?thesis
    using a b c Handle_sample_post [OF a b c, of mac_sample H_one]
    by (simp add: e calls_def)
qed

section \<open>The request body after the integrity check\<close>

text \<open>
  C9: \<open>checkIntegrity\<close> leaves the request as it found it, whatever its verdict: the
  bytes read from the body afterwards are the bytes that could be read before, and
  they are the bytes the keyed hash was computed over when the check got that far.
  The same holds for the request \<open>Handle\<close> leaves behind on a POST.
\<close>

theorem checkIntegrity_body_replayed:
  "snd (checkIntegrity mac m r) = r \<and>
   fst (ReadAll (snd (checkIntegrity mac m r))) = fst (ReadAll r) \<and>
   (appSecret m \<noteq> [] \<longrightarrow> SplitN2 (Header_Get (Header r) sigHeader) = [enc, h] \<longrightarrow>
      ToLower enc = ''sha1'' \<longrightarrow>
      fst (checkIntegrity mac m r) =
        checkSHA1 mac m (fst (ReadAll (snd (checkIntegrity mac m r)))) (ToLower h)) \<and>
   (Method r \<noteq> ''GET'' \<longrightarrow>
      fst (ReadAll (out_req (Handle U mac H m r))) = fst (ReadAll r))"
proof -
  have a: "snd (checkIntegrity mac m r) = r"
    by (rule checkIntegrity_req)
  have b: "fst (checkIntegrity mac m r) = checkSHA1 mac m (fst (ReadAll r)) (ToLower h)"
    if "appSecret m \<noteq> []" "SplitN2 (Header_Get (Header r) sigHeader) = [enc, h]"
      "ToLower enc = ''sha1''"
    using that by (simp add: checkIntegrity_def ReadAll_def Let_def)
  have c: "out_req (Handle U mac H m r) = r" if "Method r \<noteq> ''GET''"
    using that checkIntegrity_req [of mac m r]
    by (cases "checkIntegrity mac m r")
       (auto simp: Handle_POST split: sum.splits option.splits)
  show ?thesis
    using a b c by simp
qed

theorem checkIntegrity_body_replayed_witness:
  "appSecret m_verify \<noteq> [] \<and>
   SplitN2 (Header_Get (Header (post_req [(sigHeader, ''sha1=abc'')] body_page)) sigHeader) =
     [''sha1'', ''abc''] \<and>
   ToLower ''sha1'' = ''sha1'' \<and>
   Method (post_req [(sigHeader, ''sha1=abc'')] body_page) \<noteq> ''GET'' \<and>
   fst (ReadAll (snd (checkIntegrity mac_sample m_verify
     (post_req [(sigHeader, ''sha1=abc'')] body_page)))) = body_page \<and>
   fst (checkIntegrity mac_sample m_verify (post_req [(sigHeader, ''sha1=abc'')] body_page)) =
     checkSHA1 mac_sample m_verify body_page ''abc'' \<and>
   fst (ReadAll (out_req (Handle json_Unmarshal mac_sample H_one m_verify
     (post_req [(sigHeader, ''sha1=abc'')] body_page)))) = body_page"
proof -
  let ?r = "post_req [(sigHeader, ''sha1=abc'')] body_page"
  have a: "appSecret m_verify \<noteq> []"
    by (simp add: m_verify_def New_def)
  have b: "SplitN2 (Header_Get (Header ?r) sigHeader) = [''sha1'', ''abc'']"
    by (simp add: post_req_def Header_Get_def SplitN2_def)
  have c: "ToLower ''sha1'' = ''sha1''" "ToLower ''abc'' = ''abc''"
    by (simp_all add: ToLower_def lower_char_def)
  have d: "Method ?r \<noteq> ''GET''"
    by (simp add: post_req_def)
  have e: "fst (ReadAll ?r) = body_page"
    by (simp add: ReadAll_def post_req_def)
  show ?thesis
    using a b c d e
      checkIntegrity_body_replayed [of mac_sample m_verify ?r "''sha1''" "''abc''"
        json_Unmarshal H_one]
    by simp
qed

section \<open>The verification endpoint\<close>

text \<open>
  C7, as stated: on a GET with the right verify token the body of the response is
  exactly the challenge. It fails for the challenge \<open>42\<close>: \<open>fmt.Fprintln\<close> writes the
  challenge and a newline, three bytes.
\<close>

theorem verifyHandler_verbatim_counterexample:
  "verifyToken m_verify = ''abc'' \<and>
   FormValue (get_req [(''hub.verify_token'', ''abc''), (''hub.challenge'', ''42'')])
     ''hub.challenge'' = ''42'' \<and>
   RespBody (out_resp (Handle json_Unmarshal mac_sample H_one m_verify
     (get_req [(''hub.verify_token'', ''abc''), (''hub.challenge'', ''42'')]))) \<noteq> ''42''"
  by (simp add: Handle_GET get_req_def verifyHandler_def FormValue_def m_verify_def New_def
      Fprintln_def)

text \<open>
  C7, amended: on a GET, if \<open>hub.verify_token\<close> equals the configured verify token
  the response is 200 and its body is the \<open>hub.challenge\<close> parameter followed by one
  newline; otherwise the response is 403 with the fixed body
  \<open>Incorrect verify token\<close> and a newline. In neither case is a handler or the
  dispatcher touched.
\<close>

theorem Handle_GET_handshake:
  assumes "Method r = ''GET''"
  shows "out_effects (Handle U mac H m r) = [] \<and>
         (FormValue r ''hub.verify_token'' = verifyToken m \<longrightarrow>
            Status (out_resp (Handle U mac H m r)) = 200 \<and>
            RespBody (out_resp (Handle U mac H m r)) =
              FormValue r ''hub.challenge'' @ [CHR 0x0A]) \<and>
         (FormValue r ''hub.verify_token'' \<noteq> verifyToken m \<longrightarrow>
            Status (out_resp (Handle U mac H m r)) = 403 \<and>
            RespBody (out_resp (Handle U mac H m r)) = ''Incorrect verify token'' @ [CHR 0x0A])"
  using assms
  by (simp add: Handle_GET verifyHandler_def Fprintln_def http_Error_def StatusOK_def
      StatusForbidden_def)

theorem Handle_GET_handshake_witness:
  "Method (get_req [(''hub.verify_token'', ''abc''), (''hub.challenge'', ''42'')]) = ''GET'' \<and>
   Status (out_resp (Handle json_Unmarshal mac_sample H_one m_verify
     (get_req [(''hub.verify_token'', ''abc''), (''hub.challenge'', ''42'')]))) = 200 \<and>
   RespBody (out_resp (Handle json_Unmarshal mac_sample H_one m_verify
     (get_req [(''hub.verify_token'', ''abc''), (''hub.challenge'', ''42'')]))) =
     ''42'' @ [CHR 0x0A] \<and>
   Method (get_req [(''hub.verify_token'', ''wrong''), (''hub.challenge'', ''42'')]) = ''GET'' \<and>
   Status (out_resp (Handle json_Unmarshal mac_sample H_one m_verify
     (get_req [(''hub.verify_token'', ''wrong''), (''hub.challenge'', ''42'')]))) = 403"
proof -
  let ?ok = "get_req [(''hub.verify_token'', ''abc''), (''hub.challenge'', ''42'')]"
  let ?bad = "get_req [(''hub.verify_token'', ''wrong''), (''hub.challenge'', ''42'')]"
  have a: "Method ?ok = ''GET''" and b: "Method ?bad = ''GET''"
    by (simp_all add: get_req_def)
  have c: "FormValue ?ok ''hub.verify_token'' = verifyToken m_verify"
    by (simp add: get_req_def FormValue_def m_verify_def New_def)
  have d: "FormValue ?bad ''hub.verify_token'' \<noteq> verifyToken m_verify"
    by (simp add: get_req_def FormValue_def m_verify_def New_def)
  have e: "FormValue ?ok ''hub.challenge'' = ''42''"
    by (simp add: get_req_def FormValue_def)
  show ?thesis
    using a b c d e
      Handle_GET_handshake [OF a, of json_Unmarshal mac_sample H_one m_verify]
      Handle_GET_handshake [OF b, of json_Unmarshal mac_sample H_one m_verify]
    by simp
qed

text \<open>
  C10: a client built from options whose verify token is the empty string accepts
  every GET whose \<open>hub.verify_token\<close> parameter is absent or empty: the response is
  200, never 403, and echoes the \<open>hub.challenge\<close> parameter (followed by the newline
  \<open>fmt.Fprintln\<close> adds).
\<close>

theorem Handle_GET_empty_token:
  assumes "opt_VerifyToken mo = []" and "Method r = ''GET''"
    and "map_of (Form r) ''hub.verify_token'' = None \<or>
         map_of (Form r) ''hub.verify_token'' = Some []"
  shows "Status (out_resp (Handle U mac H (New mo) r)) = 200 \<and>
         Status (out_resp (Handle U mac H (New mo) r)) \<noteq> 403 \<and>
         RespBody (out_resp (Handle U mac H (New mo) r)) =
           FormValue r ''hub.challenge'' @ [CHR 0x0A]"
  using assms
  by (auto simp: Handle_GET verifyHandler_def Fprintln_def StatusOK_def New_def FormValue_def)

theorem Handle_GET_empty_token_witness:
  "opt_VerifyToken \<lparr>opt_Verify = True, opt_AppSecret = ''secret'', opt_VerifyToken = [],
       opt_Token = ''tok'', opt_Client = None\<rparr> = [] \<and>
   Method (get_req [(''hub.challenge'', ''42'')]) = ''GET'' \<and>
   map_of (Form (get_req [(''hub.challenge'', ''42'')])) ''hub.verify_token'' = None \<and>
   Status (out_resp (Handle json_Unmarshal mac_sample H_one
     (New \<lparr>opt_Verify = True, opt_AppSecret = ''secret'', opt_VerifyToken = [],
       opt_Token = ''tok'', opt_Client = None\<rparr>) (get_req [(''hub.challenge'', ''42'')]))) = 200 \<and>
   RespBody (out_resp (Handle json_Unmarshal mac_sample H_one
     (New \<lparr>opt_Verify = True, opt_AppSecret = ''secret'', opt_VerifyToken = [],
       opt_Token = ''tok'', opt_Client = None\<rparr>) (get_req [(''hub.challenge'', ''42'')]))) =
     ''42'' @ [CHR 0x0A]"
proof -
  let ?mo = "\<lparr>opt_Verify = True, opt_AppSecret = ''secret'', opt_VerifyToken = [],
       opt_Token = ''tok'', opt_Client = None\<rparr>"
  let ?r = "get_req [(''hub.challenge'', ''42'')]"
  have a: "opt_VerifyToken ?mo = []"
    by simp
  have b: "Method ?r = ''GET''"
    by (simp add: get_req_def)
  have c: "map_of (Form ?r) ''hub.verify_token'' = None"
    by (simp add: get_req_def)
  have d: "FormValue ?r ''hub.challenge'' = ''42''"
    by (simp add: get_req_def FormValue_def)
  show ?thesis
    using a b c d
      Handle_GET_empty_token [OF a b disjI1 [OF c], of json_Unmarshal mac_sample H_one]
    by simp
qed

end
